theory Spec2Isabelle
  imports Main "HOL-Library.Multiset" "HOL-Library.Sublist"
begin

section \<open>Data model (types.ts)\<close>

text \<open>
  JavaScript strings are sequences of code units; they are modelled as \<open>string\<close>
  (a list of characters), and \<open>.length\<close> as \<open>length\<close>. The fields of a rule are
  strings, as the interface \<open>SignalMapping\<close> declares them; \<open>changes\<close> is a JavaScript
  number that only ever holds a count, an \<open>int\<close> here.
\<close>

datatype TestMode = HIL | SIL

record SignalMapping =
  id_m :: string
  realSignal :: string
  simSignal :: string
  description :: "string option"

record TransformationResult =
  code :: string
  changes :: int

text \<open>A rule without description, for the examples.\<close>

definition mkRule :: "string \<Rightarrow> string \<Rightarrow> string \<Rightarrow> SignalMapping" where
  "mkRule i r s = \<lparr>id_m = i, realSignal = r, simSignal = s, description = None\<rparr>"

section \<open>The JavaScript library functions the engine calls\<close>

subsection \<open>Characters with a meaning in patterns and replacement templates\<close>

definition backslash :: char where
  "backslash = CHR 0x5C"

definition backtick :: char where
  "backtick = CHR 0x60"

definition apostrophe :: char where
  "apostrophe = CHR 0x27"

definition dollar :: char where
  "dollar = CHR ''$''"

text \<open>The fourteen syntax characters of the pattern grammar: \<open>^ $ \ . * + ? ( ) [ ] { } |\<close>.\<close>

definition syntaxChars :: "char list" where
  "syntaxChars = [CHR ''^'', CHR ''$'', backslash, CHR ''.'', CHR ''*'', CHR ''+'', CHR ''?'',
     CHR ''('', CHR '')'', CHR ''['', CHR '']'', CHR ''{'', CHR ''}'', CHR ''|'']"

definition isDigit :: "char \<Rightarrow> bool" where
  "isDigit c = (c \<in> set ''0123456789'')"

subsection \<open>Regular expressions\<close>

text \<open>
  The patterns this program builds are sequences of atoms that each consume exactly one
  character: a literal character, the wildcard \<open>.\<close> (any character but a line
  terminator), or a character class. \<open>newRegExp\<close> parses a pattern string as
  \<open>new RegExp(pattern, 'g')\<close> does on that fragment: an unescaped pattern character is a
  literal, \<open>.\<close> is the wildcard, a backslash before a syntax character is an identity
  escape. A backslash at the end of the pattern is the SyntaxError of JavaScript; every
  other construct (quantifiers, groups, alternation, anchors, classes, other escapes) is
  reported as \<open>NotModelled\<close>, so that a pattern outside the fragment is an explicit
  failure of the model and never a silent literal.
\<close>

datatype atom = Lit char | AnyChar | OneOf "char list"

datatype regexp_error = SyntaxError | NotModelled

fun atomMatches :: "atom \<Rightarrow> char \<Rightarrow> bool" where
  "atomMatches (Lit c) d = (d = c)"
| "atomMatches AnyChar d = (d \<noteq> CHR 0x0A \<and> d \<noteq> CHR 0x0D)"
| "atomMatches (OneOf cs) d = (d \<in> set cs)"

fun matchHere :: "atom list \<Rightarrow> string \<Rightarrow> bool" where
  "matchHere [] s = True"
| "matchHere (a # as) [] = False"
| "matchHere (a # as) (c # cs) = (atomMatches a c \<and> matchHere as cs)"

fun consAtom :: "atom \<Rightarrow> regexp_error + atom list \<Rightarrow> regexp_error + atom list" where
  "consAtom a (Inl e) = Inl e"
| "consAtom a (Inr as) = Inr (a # as)"

fun newRegExp :: "string \<Rightarrow> regexp_error + atom list" where
  "newRegExp [] = Inr []"
| "newRegExp [c] =
     (if c = backslash then Inl SyntaxError
      else if c = CHR ''.'' then Inr [AnyChar]
      else if c \<in> set syntaxChars then Inl NotModelled
      else Inr [Lit c])"
| "newRegExp (c # d # r) =
     (if c = backslash then
        (if d \<in> set syntaxChars then consAtom (Lit d) (newRegExp r) else Inl NotModelled)
      else if c = CHR ''.'' then consAtom AnyChar (newRegExp (d # r))
      else if c \<in> set syntaxChars then Inl NotModelled
      else consAtom (Lit c) (newRegExp (d # r)))"

subsection \<open>Replacement templates\<close>

text \<open>
  \<open>getSubstitution matched pre post template\<close> expands a replacement string as
  \<open>String.prototype.replace\<close> does for a pattern without capture groups: \<open>$$\<close> is a
  dollar sign, \<open>$&\<close> the matched text, \<open>$`\<close> the text before the match, \<open>$'\<close> the text
  after it; \<open>$\<close> before a digit or before \<open><\<close> refers to a group that does not exist
  and stays as written, as does every other character.
\<close>

fun getSubstitution :: "string \<Rightarrow> string \<Rightarrow> string \<Rightarrow> string \<Rightarrow> string" where
  "getSubstitution m b a [] = []"
| "getSubstitution m b a [c] = [c]"
| "getSubstitution m b a (c # d # r) =
     (if c = dollar then
        (if d = dollar then dollar # getSubstitution m b a r
         else if d = backtick then b @ getSubstitution m b a r
         else if d = CHR ''&'' then m @ getSubstitution m b a r
         else if d = apostrophe then a @ getSubstitution m b a r
         else if isDigit d then c # d # getSubstitution m b a r
         else if d = CHR ''<'' then c # d # getSubstitution m b a r
         else c # getSubstitution m b a (d # r))
      else c # getSubstitution m b a (d # r))"

subsection \<open>Global match and global replace\<close>

text \<open>
  With the \<open>g\<close> flag both \<open>match\<close> and \<open>replace\<close> scan the text from left to right: where
  the pattern matches, the match is taken and the scan goes on behind it (one character
  further when the match is empty); elsewhere it moves on by one character.
  \<open>matchesFrom\<close> collects the matched substrings, \<open>replaceFrom\<close> builds the new text,
  carrying the text already passed (\<open>pre\<close>) for the template.
\<close>

function matchesFrom :: "atom list \<Rightarrow> string \<Rightarrow> string list" where
  "matchesFrom as [] = (if as = [] then [[]] else [])"
| "matchesFrom as (c # r) =
     (if matchHere as (c # r) then
        (if as = [] then [] # matchesFrom as r
         else take (length as) (c # r) # matchesFrom as (drop (length as) (c # r)))
      else matchesFrom as r)"
  by pat_completeness auto
termination
  by (relation "measure (\<lambda>(as, s). length s)") auto

function replaceFrom :: "atom list \<Rightarrow> string \<Rightarrow> string \<Rightarrow> string \<Rightarrow> string" where
  "replaceFrom as tpl pre [] = (if as = [] then getSubstitution [] pre [] tpl else [])"
| "replaceFrom as tpl pre (c # r) =
     (if matchHere as (c # r) then
        (if as = [] then
           getSubstitution [] pre (c # r) tpl @ c # replaceFrom as tpl (pre @ [c]) r
         else
           getSubstitution (take (length as) (c # r)) pre (drop (length as) (c # r)) tpl
             @ replaceFrom as tpl (pre @ take (length as) (c # r)) (drop (length as) (c # r)))
      else c # replaceFrom as tpl (pre @ [c]) r)"
  by pat_completeness auto
termination
  by (relation "measure (\<lambda>(as, tpl, pre, s). length s)") auto

text \<open>\<open>s.match(regex)\<close>: \<open>null\<close> when nothing matches, else the array of matches.\<close>

definition js_match :: "string \<Rightarrow> atom list \<Rightarrow> string list option" where
  "js_match s regex = (let ms = matchesFrom regex s in if ms = [] then None else Some ms)"

text \<open>\<open>s.replace(regex, template)\<close>.\<close>

definition js_replace :: "string \<Rightarrow> atom list \<Rightarrow> string \<Rightarrow> string" where
  "js_replace s regex tpl = replaceFrom regex tpl [] s"

subsection \<open>Array.prototype.sort\<close>

text \<open>
  \<open>sort\<close> with a consistent comparator is stable (ECMAScript 2019 and later): elements
  that compare equal keep their order. The model inserts each element, from the last to
  the first, before the first element it does not compare greater than.
\<close>

fun insertSorted :: "('a \<Rightarrow> 'a \<Rightarrow> int) \<Rightarrow> 'a \<Rightarrow> 'a list \<Rightarrow> 'a list" where
  "insertSorted cmp x [] = [x]"
| "insertSorted cmp x (y # ys) =
     (if cmp x y \<le> 0 then x # y # ys else y # insertSorted cmp x ys)"

definition js_sort :: "('a \<Rightarrow> 'a \<Rightarrow> int) \<Rightarrow> 'a list \<Rightarrow> 'a list" where
  "js_sort cmp xs = foldr (insertSorted cmp) xs []"

section \<open>The transformation engine (utils/transformer.ts)\<close>

definition sourceOf :: "TestMode \<Rightarrow> SignalMapping \<Rightarrow> string" where
  "sourceOf mode m = (if mode = SIL then realSignal m else simSignal m)"

definition targetOf :: "TestMode \<Rightarrow> SignalMapping \<Rightarrow> string" where
  "targetOf mode m = (if mode = SIL then simSignal m else realSignal m)"

text \<open>The comparator of the sort: \<open>lenB - lenA\<close>.\<close>

definition compareMappings :: "TestMode \<Rightarrow> SignalMapping \<Rightarrow> SignalMapping \<Rightarrow> int" where
  "compareMappings mode a b =
     (let lenA = (if mode = SIL then int (length (realSignal a)) else int (length (simSignal a)));
          lenB = (if mode = SIL then int (length (realSignal b)) else int (length (simSignal b)))
      in lenB - lenA)"

definition sortedMappings :: "TestMode \<Rightarrow> SignalMapping list \<Rightarrow> SignalMapping list" where
  "sortedMappings mode mappings = js_sort (compareMappings mode) mappings"

text \<open>The character class \<open>[.*+?^${}()|[\]\\]\<close> of the escaping regular expression.\<close>

definition metaChars :: "char list" where
  "metaChars = [CHR ''.'', CHR ''*'', CHR ''+'', CHR ''?'', CHR ''^'', CHR ''$'', CHR ''{'',
     CHR ''}'', CHR ''('', CHR '')'', CHR ''|'', CHR ''['', CHR '']'', backslash]"

text \<open>\<open>source.replace(/[.*+?^${}()|[\]\\]/g, '\\$&')\<close>\<close>

definition escapeRegExp :: "string \<Rightarrow> string" where
  "escapeRegExp source = js_replace source [OneOf metaChars] [backslash, dollar, CHR ''&'']"

text \<open>
  The body of the \<open>forEach\<close> callback, on the pair of the two variables it updates
  (\<open>transformedCode\<close>, \<open>changesCount\<close>). \<open>new RegExp\<close> is the only call that can throw.
\<close>

definition applyMapping ::
  "TestMode \<Rightarrow> SignalMapping \<Rightarrow> string \<times> int \<Rightarrow> regexp_error + string \<times> int" where
  "applyMapping mode m st =
     (let transformedCode = fst st; changesCount = snd st;
          source = sourceOf mode m; target = targetOf mode m
      in if source = [] \<or> target = [] then Inr st
         else
           (case newRegExp (escapeRegExp source) of
              Inl e \<Rightarrow> Inl e
            | Inr regex \<Rightarrow>
                (case js_match transformedCode regex of
                   None \<Rightarrow> Inr st
                 | Some matches \<Rightarrow>
                     Inr (js_replace transformedCode regex target,
                          changesCount + int (length matches)))))"

fun forEach :: "('a \<Rightarrow> 's \<Rightarrow> 'e + 's) \<Rightarrow> 'a list \<Rightarrow> 's \<Rightarrow> 'e + 's" where
  "forEach f [] st = Inr st"
| "forEach f (x # xs) st = (case f x st of Inl e \<Rightarrow> Inl e | Inr st' \<Rightarrow> forEach f xs st')"

definition performLocalTransformation ::
  "string \<Rightarrow> TestMode \<Rightarrow> SignalMapping list \<Rightarrow> regexp_error + TransformationResult" where
  "performLocalTransformation src mode mappings =
     (case forEach (applyMapping mode) (sortedMappings mode mappings) (src, 0) of
        Inl e \<Rightarrow> Inl e
      | Inr st \<Rightarrow> Inr \<lparr>code = fst st, changes = snd st\<rparr>)"

section \<open>The exported batch program (NODE_CLI_TEMPLATE in constants.ts)\<close>

text \<open>
  The template is a JavaScript template literal: \<open>\\\<close> in it stands for one backslash
  and \<open>\$\<close> for a dollar sign, so the exported program escapes a pattern with
  \<open>source.replace(/[.*+?^\${}()|[\]\\]/g, '\\$&')\<close>, the class and the replacement of
  \<open>escapeRegExp\<close>. In the exported program the mode is a string, compared with
  \<open>TestMode.SIL = 'SIL'\<close>.
\<close>

definition modeString :: "TestMode \<Rightarrow> string" where
  "modeString mode = (case mode of HIL \<Rightarrow> ''HIL'' | SIL \<Rightarrow> ''SIL'')"

text \<open>\<open>a || b\<close> on strings: the empty string is the only falsy string.\<close>

definition orElse :: "string \<Rightarrow> string \<Rightarrow> string" where
  "orElse a b = (if a \<noteq> [] then a else b)"

definition compareMappingsCLI :: "string \<Rightarrow> SignalMapping \<Rightarrow> SignalMapping \<Rightarrow> int" where
  "compareMappingsCLI mode a b =
     (let lenA = (if mode = ''SIL'' then int (length (orElse (realSignal a) []))
                  else int (length (orElse (simSignal a) [])));
          lenB = (if mode = ''SIL'' then int (length (orElse (realSignal b) []))
                  else int (length (orElse (simSignal b) [])))
      in lenB - lenA)"

definition applyMappingCLI ::
  "string \<Rightarrow> SignalMapping \<Rightarrow> string \<times> int \<Rightarrow> regexp_error + string \<times> int" where
  "applyMappingCLI mode m st =
     (let transformedCode = fst st; changesCount = snd st;
          source = (if mode = ''SIL'' then realSignal m else simSignal m);
          target = (if mode = ''SIL'' then simSignal m else realSignal m)
      in if source = [] \<or> target = [] then Inr st
         else
           (case newRegExp (escapeRegExp source) of
              Inl e \<Rightarrow> Inl e
            | Inr regex \<Rightarrow>
                (case js_match transformedCode regex of
                   None \<Rightarrow> Inr st
                 | Some matches \<Rightarrow>
                     Inr (js_replace transformedCode regex target,
                          changesCount + int (length matches)))))"

definition performTransformation ::
  "string \<Rightarrow> string \<Rightarrow> SignalMapping list \<Rightarrow> regexp_error + TransformationResult" where
  "performTransformation src mode mappings =
     (case forEach (applyMappingCLI mode) (js_sort (compareMappingsCLI mode) mappings) (src, 0) of
        Inl e \<Rightarrow> Inl e
      | Inr st \<Rightarrow> Inr \<lparr>code = fst st, changes = snd st\<rparr>)"

subsection \<open>JSON values\<close>

text \<open>
  What \<open>JSON.parse\<close> returns. Numbers are kept as integers: no claim looks inside one.
  An object is the list of its members in the order of the text; when a key is repeated
  the last member counts.
\<close>

datatype json = JNull | JBool bool | JNum int | JStr string | JArr "json list"
  | JObj "(string \<times> json) list"

definition getMember :: "(string \<times> json) list \<Rightarrow> string \<Rightarrow> json option" where
  "getMember kvs k = map_of (rev kvs) k"

text \<open>
  The records of the mapping file format:
  \<open>{ id: string, realSignal: string, simSignal: string, description?: string }\<close>.
\<close>

fun ruleShaped :: "json \<Rightarrow> bool" where
  "ruleShaped (JObj kvs) =
     (case (getMember kvs ''id'', getMember kvs ''realSignal'', getMember kvs ''simSignal'') of
        (Some (JStr i), Some (JStr r), Some (JStr s)) \<Rightarrow> True
      | _ \<Rightarrow> False)"
| "ruleShaped _ = False"

fun asMapping :: "json \<Rightarrow> SignalMapping option" where
  "asMapping (JObj kvs) =
     (case (getMember kvs ''id'', getMember kvs ''realSignal'', getMember kvs ''simSignal'') of
        (Some (JStr i), Some (JStr r), Some (JStr s)) \<Rightarrow>
          Some \<lparr>id_m = i, realSignal = r, simSignal = s,
                description = (case getMember kvs ''description'' of
                                 Some (JStr d) \<Rightarrow> Some d | _ \<Rightarrow> None)\<rparr>
      | _ \<Rightarrow> None)"
| "asMapping _ = None"

fun asMappings :: "json list \<Rightarrow> SignalMapping list option" where
  "asMappings [] = Some []"
| "asMappings (j # js) =
     (case asMapping j of
        None \<Rightarrow> None
      | Some m \<Rightarrow> (case asMappings js of None \<Rightarrow> None | Some ms \<Rightarrow> Some (m # ms)))"

subsection \<open>The main script\<close>

text \<open>
  The script reads \<open>process.argv.slice(2)\<close> and the file system and ends with an exit
  code, the lines it printed and the file it wrote. The library functions \<open>JSON.parse\<close>
  (\<open>None\<close> when it throws) and \<open>toUpperCase\<close> are parameters, and so are the rules
  embedded at export time and the set of paths where \<open>fs.writeFileSync\<close> throws. An
  external mapping file that holds an array of records that are not rule-shaped is outside
  the typed model of the engine: the model answers \<open>None\<close> there and says nothing
  about what the script does.
\<close>

datatype cli_error = MappingFileNoArray | MappingFileNotFound string | MappingFileSyntax
  | InputFileNotFound string | RegExpFailure regexp_error | WriteFailed string

datatype cli_line = UsageText | LoadingExternalMappings string | ErrorLoadingMappingFile cli_error
  | UsingEmbeddedMappings | Reading string | Applying nat string | SuccessWritten string
  | ChangesMade int | ErrorLine cli_error

record cli_result =
  exitCode :: nat
  console :: "cli_line list"
  files :: "string \<rightharpoonup> string"

text \<open>\<open>a.startsWith(p)\<close>\<close>

definition startsWith :: "string \<Rightarrow> string \<Rightarrow> bool" where
  "startsWith a p = (take (length p) a = p)"

text \<open>\<open>a.split('=')[1]\<close> for an argument that contains \<open>=\<close>: the text between the first
  \<open>=\<close> and the next one (or the end).\<close>

definition splitEquals1 :: "string \<Rightarrow> string" where
  "splitEquals1 a =
     takeWhile (\<lambda>c. c \<noteq> CHR ''='') (drop 1 (dropWhile (\<lambda>c. c \<noteq> CHR ''='') a))"

text \<open>What \<open>toUpperCase\<close> does to a text of ASCII characters: the letters \<open>a\<close> to \<open>z\<close>
  become \<open>A\<close> to \<open>Z\<close>. The examples give it to the script for \<open>toUpperCase\<close>.\<close>

definition upperCaseAscii :: "string \<Rightarrow> string" where
  "upperCaseAscii s =
     map (\<lambda>c. let n = (of_char c :: nat) in if 97 \<le> n \<and> n \<le> 122 then char_of (n - 32) else c) s"

definition cli_transform ::
  "(string \<rightharpoonup> string) \<Rightarrow> string set \<Rightarrow> string \<Rightarrow> string \<Rightarrow> string \<Rightarrow> cli_line list \<Rightarrow>
   SignalMapping list \<Rightarrow> cli_result" where
  "cli_transform fs unwritable inputFile outputFile mode printed activeMappings =
     (case fs inputFile of
        None \<Rightarrow>
          \<lparr>exitCode = 1, console = printed @ [ErrorLine (InputFileNotFound inputFile)], files = fs\<rparr>
      | Some src \<Rightarrow>
          (case performTransformation src mode activeMappings of
             Inl e \<Rightarrow>
               \<lparr>exitCode = 1,
                console = printed @ [Reading inputFile, Applying (length activeMappings) mode,
                                    ErrorLine (RegExpFailure e)],
                files = fs\<rparr>
           | Inr result \<Rightarrow>
               (if outputFile \<in> unwritable then
                  \<lparr>exitCode = 1,
                   console = printed @ [Reading inputFile, Applying (length activeMappings) mode,
                                       ErrorLine (WriteFailed outputFile)],
                   files = fs\<rparr>
                else
                  \<lparr>exitCode = 0,
                   console = printed @ [Reading inputFile, Applying (length activeMappings) mode,
                                       SuccessWritten outputFile, ChangesMade (changes result)],
                   files = fs(outputFile \<mapsto> code result)\<rparr>)))"

definition cli_main ::
  "(string \<Rightarrow> json option) \<Rightarrow> (string \<Rightarrow> string) \<Rightarrow> SignalMapping list \<Rightarrow>
   (string \<rightharpoonup> string) \<Rightarrow> string set \<Rightarrow> string list \<Rightarrow> cli_result option" where
  "cli_main JSON_parse toUpperCase EMBEDDED_MAPPINGS fs unwritable args =
     (if length args < 2 then Some \<lparr>exitCode = 1, console = [UsageText], files = fs\<rparr>
      else
        (let inputFile = args ! 0; outputFile = args ! 1;
             modeArg = find (\<lambda>a. startsWith a ''--mode='') args;
             mappingArg = find (\<lambda>a. startsWith a ''--mapping='') args;
             mode = (case modeArg of Some a \<Rightarrow> toUpperCase (splitEquals1 a) | None \<Rightarrow> ''SIL'')
         in case mappingArg of
              None \<Rightarrow>
                Some (cli_transform fs unwritable inputFile outputFile mode
                        [UsingEmbeddedMappings] EMBEDDED_MAPPINGS)
            | Some a \<Rightarrow>
                (let mappingPath = splitEquals1 a
                 in case fs mappingPath of
                      None \<Rightarrow>
                        Some \<lparr>exitCode = 1,
                              console = [ErrorLoadingMappingFile (MappingFileNotFound mappingPath)],
                              files = fs\<rparr>
                    | Some fileContent \<Rightarrow>
                        (case JSON_parse fileContent of
                           None \<Rightarrow>
                             Some \<lparr>exitCode = 1,
                                   console = [LoadingExternalMappings mappingPath,
                                             ErrorLoadingMappingFile MappingFileSyntax],
                                   files = fs\<rparr>
                         | Some (JArr js) \<Rightarrow>
                             (case asMappings js of
                                None \<Rightarrow> None
                              | Some ms \<Rightarrow>
                                  Some (cli_transform fs unwritable inputFile outputFile mode
                                          [LoadingExternalMappings mappingPath] ms))
                         | Some _ \<Rightarrow>
                             Some \<lparr>exitCode = 1,
                                   console = [LoadingExternalMappings mappingPath,
                                             ErrorLoadingMappingFile MappingFileNoArray],
                                   files = fs\<rparr>))))"

section \<open>Importing a mapping file (App.tsx, components/MappingEditor.tsx)\<close>

text \<open>
  Both handlers run when the file has been read. Their input is what \<open>JSON.parse\<close> made
  of the file (\<open>None\<close> when it throws) and the name of the file. At run time the store
  holds whatever array was accepted, so it is a list of JSON values here.
\<close>

datatype app_log = LoadedMappings nat string | InvalidJsonFormat | FailedToParseJson

record app_state =
  mappings :: "json list"
  terminalLogs :: "app_log list"

definition handleMappingFileUpload :: "json option \<Rightarrow> string \<Rightarrow> app_state \<Rightarrow> app_state" where
  "handleMappingFileUpload parsed name st =
     (case parsed of
        None \<Rightarrow> st\<lparr>terminalLogs := terminalLogs st @ [FailedToParseJson]\<rparr>
      | Some (JArr js) \<Rightarrow>
          st\<lparr>mappings := js, terminalLogs := terminalLogs st @ [LoadedMappings (length js) name]\<rparr>
      | Some _ \<Rightarrow> st\<lparr>terminalLogs := terminalLogs st @ [InvalidJsonFormat]\<rparr>)"

datatype editor_alert = AlertInvalidJsonFormat | AlertFailedToParseJson

record editor_state =
  editorMappings :: "json list"
  alerts :: "editor_alert list"

definition handleFileUpload :: "json option \<Rightarrow> editor_state \<Rightarrow> editor_state" where
  "handleFileUpload parsed st =
     (case parsed of
        None \<Rightarrow> st\<lparr>alerts := alerts st @ [AlertFailedToParseJson]\<rparr>
      | Some (JArr js) \<Rightarrow> st\<lparr>editorMappings := js\<rparr>
      | Some _ \<Rightarrow> st\<lparr>alerts := alerts st @ [AlertInvalidJsonFormat]\<rparr>)"

text \<open>\<open>handleSwap\<close> in App.tsx switches to the other mode.\<close>

definition swapMode :: "TestMode \<Rightarrow> TestMode" where
  "swapMode mode = (if mode = SIL then HIL else SIL)"

section \<open>Literal search and replacement, as the specification words it\<close>

text \<open>
  The specification speaks of the occurrences of a pattern as exact literal text, found
  from left to right without overlap. \<open>literalCount\<close> counts them, \<open>replaceAll\<close> puts a
  fixed text in the place of each. An empty pattern has no occurrence.
\<close>

function literalCount :: "string \<Rightarrow> string \<Rightarrow> nat" where
  "literalCount p [] = 0"
| "literalCount p (c # r) =
     (if p \<noteq> [] \<and> prefix p (c # r) then Suc (literalCount p (drop (length p) (c # r)))
      else literalCount p r)"
  by pat_completeness auto
termination
  by (relation "measure (\<lambda>(p, s). length s)") auto

function replaceAll :: "string \<Rightarrow> string \<Rightarrow> string \<Rightarrow> string" where
  "replaceAll p q [] = []"
| "replaceAll p q (c # r) =
     (if p \<noteq> [] \<and> prefix p (c # r) then q @ replaceAll p q (drop (length p) (c # r))
      else c # replaceAll p q r)"
  by pat_completeness auto
termination
  by (relation "measure (\<lambda>(p, q, s). length s)") auto

text \<open>A replacement text holds a special reference when a dollar sign in it is followed
  by a dollar sign, a backtick, an ampersand or an apostrophe.\<close>

fun hasSpecialRef :: "string \<Rightarrow> bool" where
  "hasSpecialRef [] = False"
| "hasSpecialRef [c] = False"
| "hasSpecialRef (c # d # r) =
     ((c = dollar \<and> (d = dollar \<or> d = backtick \<or> d = CHR ''&'' \<or> d = apostrophe))
      \<or> hasSpecialRef (d # r))"

text \<open>A rule takes part in a transformation when neither of its two fields is empty.\<close>

definition isActive :: "SignalMapping \<Rightarrow> bool" where
  "isActive m = (realSignal m \<noteq> [] \<and> simSignal m \<noteq> [])"

text \<open>
  What one rule does to the pair (text, count) when its escaped pattern is read as the
  literal it stands for.
\<close>

definition applyStep :: "TestMode \<Rightarrow> SignalMapping \<Rightarrow> string \<times> int \<Rightarrow> string \<times> int" where
  "applyStep mode m st =
     (if sourceOf mode m = [] \<or> targetOf mode m = [] then st
      else (replaceFrom (map Lit (sourceOf mode m)) (targetOf mode m) [] (fst st),
            snd st + int (literalCount (sourceOf mode m) (fst st))))"


subsection \<open>The hypotheses of the round trip\<close>



subsection \<open>Texts as token lists\<close>















definition escapeChar :: "char \<Rightarrow> string" where
  "escapeChar c = (if c \<in> set metaChars then [backslash, c] else [c])"

section \<open>The library model on the patterns of the engine\<close>

lemmas char_defs = backslash_def backtick_def apostrophe_def dollar_def

lemma set_metaChars: "set metaChars = set syntaxChars"
  by (auto simp: metaChars_def syntaxChars_def)

lemma getSubstitution_escape:
  "getSubstitution [c] b a [backslash, dollar, CHR ''&''] = [backslash, c]"
  by (simp add: char_defs)

lemma replaceFrom_class:
  "replaceFrom [OneOf cs] [backslash, dollar, CHR ''&''] pre s =
     concat (map (\<lambda>c. if c \<in> set cs then [backslash, c] else [c]) s)"
  by (induction s arbitrary: pre) (simp_all add: getSubstitution_escape del: getSubstitution.simps)

lemma escapeRegExp_concat: "escapeRegExp s = concat (map escapeChar s)"
  by (simp add: escapeRegExp_def js_replace_def replaceFrom_class escapeChar_def [abs_def])

lemma newRegExp_plain:
  "c \<notin> set syntaxChars \<Longrightarrow> newRegExp (c # r) = consAtom (Lit c) (newRegExp r)"
  by (cases r) (auto simp: syntaxChars_def)

lemma newRegExp_escaped:
  "c \<in> set syntaxChars \<Longrightarrow> newRegExp (backslash # c # r) = consAtom (Lit c) (newRegExp r)"
  by simp

lemma newRegExp_escapeChar:
  "newRegExp (escapeChar c @ r) = consAtom (Lit c) (newRegExp r)"
  by (simp add: escapeChar_def newRegExp_plain newRegExp_escaped set_metaChars del: newRegExp.simps)

lemma newRegExp_escapeRegExp: "newRegExp (escapeRegExp s) = Inr (map Lit s)"
  unfolding escapeRegExp_concat
  by (induction s) (simp_all add: newRegExp_escapeChar del: newRegExp.simps, simp)

lemma matchHere_Lit: "matchHere (map Lit p) s = prefix p s"
proof (induction p arbitrary: s)
  case Nil
  then show ?case by simp
next
  case (Cons a p)
  then show ?case by (cases s) auto
qed

lemma prefix_take: "prefix p s \<Longrightarrow> take (length p) s = p"
  by (auto simp: prefix_def)

lemma matchesFrom_Lit:
  "p \<noteq> [] \<Longrightarrow> matchesFrom (map Lit p) s = replicate (literalCount p s) p"
proof (induction p s rule: literalCount.induct)
  case (1 p)
  then show ?case by simp
next
  case (2 p c r)
  then show ?case
    by (simp add: matchHere_Lit prefix_take del: prefix_Cons take_Suc_Cons drop_Suc_Cons)
qed

lemma hasSpecialRef_tail: "\<not> hasSpecialRef (d # r) \<Longrightarrow> \<not> hasSpecialRef r"
  by (cases r) auto

lemma getSubstitution_plain: "\<not> hasSpecialRef tpl \<Longrightarrow> getSubstitution m b a tpl = tpl"
proof (induction m b a tpl rule: getSubstitution.induct)
  case (3 m b a c d r)
  then show ?case using hasSpecialRef_tail [of d r] by auto
qed simp_all

lemma replaceFrom_Lit:
  "p \<noteq> [] \<Longrightarrow> \<not> hasSpecialRef tpl \<Longrightarrow>
   replaceFrom (map Lit p) tpl pre s = replaceAll p tpl s"
proof (induction p tpl s arbitrary: pre rule: replaceAll.induct)
  case (1 p q)
  then show ?case by simp
next
  case (2 p q c r)
  then show ?case
    by (simp add: matchHere_Lit getSubstitution_plain
        del: prefix_Cons take_Suc_Cons drop_Suc_Cons getSubstitution.simps)
qed

lemma literalCount_0: "\<not> sublist p s \<Longrightarrow> literalCount p s = 0"
proof (induction p s rule: literalCount.induct)
  case (1 p)
  then show ?case by simp
next
  case (2 p c r)
  have "\<not> prefix p (c # r)" using 2(3) prefix_imp_sublist by blast
  moreover have "\<not> sublist p r" using 2(3) by (meson sublist_Cons_right)
  ultimately show ?case using 2 by simp
qed

lemma literalCount_pos: "p \<noteq> [] \<Longrightarrow> sublist p s \<Longrightarrow> 0 < literalCount p s"
proof (induction p s rule: literalCount.induct)
  case (1 p)
  then show ?case by simp
next
  case (2 p c r)
  show ?case
  proof (cases "prefix p (c # r)")
    case True
    then show ?thesis using 2(3) by simp
  next
    case False
    then have "sublist p r" using 2(4) by (simp add: sublist_Cons_right)
    then show ?thesis using 2 False by simp
  qed
qed

lemma replaceFrom_none:
  "p \<noteq> [] \<Longrightarrow> \<not> sublist p s \<Longrightarrow> replaceFrom (map Lit p) tpl pre s = s"
proof (induction s arbitrary: pre)
  case Nil
  then show ?case by simp
next
  case (Cons c r)
  have "\<not> prefix p (c # r)" using Cons(3) prefix_imp_sublist by blast
  moreover have "\<not> sublist p r" using Cons(3) by (meson sublist_Cons_right)
  ultimately show ?case using Cons
    by (simp add: matchHere_Lit del: prefix_Cons)
qed


lemma literalCount_0_iff: "p \<noteq> [] \<Longrightarrow> (literalCount p s = 0) = (\<not> sublist p s)"
  using literalCount_0 literalCount_pos by fastforce

lemma applyMapping_step: "applyMapping mode m st = Inr (applyStep mode m st)"
proof (cases "sourceOf mode m = [] \<or> targetOf mode m = []")
  case True
  then show ?thesis by (auto simp: applyMapping_def applyStep_def)
next
  case False
  then have p: "sourceOf mode m \<noteq> []" by simp
  show ?thesis
  proof (cases "literalCount (sourceOf mode m) (fst st) = 0")
    case True
    then have "\<not> sublist (sourceOf mode m) (fst st)"
      using literalCount_0_iff [OF p] by simp
    then have "replaceFrom (map Lit (sourceOf mode m)) (targetOf mode m) [] (fst st) = fst st"
      using replaceFrom_none [OF p] by simp
    then show ?thesis using False True p
      by (simp add: applyMapping_def applyStep_def newRegExp_escapeRegExp js_match_def
          matchesFrom_Lit)
  next
    case c: False
    then show ?thesis using False p
      by (simp add: applyMapping_def applyStep_def newRegExp_escapeRegExp js_match_def
          js_replace_def matchesFrom_Lit Let_def)
  qed
qed

lemma forEach_applyMapping:
  "forEach (applyMapping mode) ms st = Inr (foldl (\<lambda>st m. applyStep mode m st) st ms)"
  by (induction ms arbitrary: st) (simp_all add: applyMapping_step)

lemma performLocalTransformation_steps:
  "performLocalTransformation src mode ms =
     Inr \<lparr>code = fst (foldl (\<lambda>st m. applyStep mode m st) (src, 0) (sortedMappings mode ms)),
          changes = snd (foldl (\<lambda>st m. applyStep mode m st) (src, 0) (sortedMappings mode ms))\<rparr>"
  by (simp add: performLocalTransformation_def forEach_applyMapping)

lemma applyStep_count:
  "snd st \<le> snd (applyStep mode m st)
   \<and> (snd (applyStep mode m st) = snd st \<longrightarrow> fst (applyStep mode m st) = fst st)"
  by (auto simp: applyStep_def literalCount_0_iff replaceFrom_none)

lemma foldl_applyStep_count:
  "snd st \<le> snd (foldl (\<lambda>st m. applyStep mode m st) st ms)
   \<and> (snd (foldl (\<lambda>st m. applyStep mode m st) st ms) = snd st
        \<longrightarrow> fst (foldl (\<lambda>st m. applyStep mode m st) st ms) = fst st)"
proof (induction ms arbitrary: st)
  case Nil
  then show ?case by simp
next
  case (Cons m ms)
  let ?s1 = "applyStep mode m st"
  let ?s2 = "foldl (\<lambda>st m. applyStep mode m st) ?s1 ms"
  have a: "snd st \<le> snd ?s1" and b: "snd ?s1 = snd st \<longrightarrow> fst ?s1 = fst st"
    using applyStep_count [of st mode m] by simp_all
  have c: "snd ?s1 \<le> snd ?s2" and d: "snd ?s2 = snd ?s1 \<longrightarrow> fst ?s2 = fst ?s1"
    using Cons [of ?s1] by simp_all
  have "snd st \<le> snd ?s2" using a c by simp
  moreover have "fst ?s2 = fst st" if "snd ?s2 = snd st"
  proof -
    have "snd ?s1 = snd st" using a c that by simp
    then show ?thesis using b d that by simp
  qed
  ultimately show ?case by simp
qed

lemma insertSorted_insort_key:
  "insertSorted (compareMappings mode) x ys =
     insort_key (\<lambda>m. - int (length (sourceOf mode m))) x ys"
  by (induction ys) (auto simp: compareMappings_def sourceOf_def)

lemma sortedMappings_sort_key:
  "sortedMappings mode ms = sort_key (\<lambda>m. - int (length (sourceOf mode m))) ms"
  by (induction ms) (simp_all add: sortedMappings_def js_sort_def insertSorted_insort_key)

lemma mset_sortedMappings: "mset (sortedMappings mode ms) = mset ms"
  by (simp add: sortedMappings_sort_key)

lemma sorted_sortedMappings:
  "sorted_wrt (\<lambda>a b. length (sourceOf mode b) \<le> length (sourceOf mode a)) (sortedMappings mode ms)"
proof -
  have "sorted (map (\<lambda>m. - int (length (sourceOf mode m))) (sortedMappings mode ms))"
    by (simp add: sortedMappings_sort_key)
  then show ?thesis by (simp add: sorted_map)
qed

lemma stable_sortedMappings:
  "filter (\<lambda>m. length (sourceOf mode m) = k) (sortedMappings mode ms) =
   filter (\<lambda>m. length (sourceOf mode m) = k) ms"
  using sort_key_stable [of "\<lambda>m. - int (length (sourceOf mode m))" "- int k" ms]
  by (simp add: sortedMappings_sort_key)

lemma filter_sortedMappings:
  "filter P (sortedMappings mode ms) = sortedMappings mode (filter P ms)"
  by (simp add: sortedMappings_sort_key filter_sort)

lemma isActive_mode: "isActive m = (\<not> (sourceOf mode m = [] \<or> targetOf mode m = []))"
  by (auto simp: isActive_def sourceOf_def targetOf_def)

lemma applyStep_inert: "\<not> isActive m \<Longrightarrow> applyStep mode m st = st"
  by (simp add: applyStep_def isActive_mode [of m mode])

lemma foldl_applyStep_filter:
  "foldl (\<lambda>st m. applyStep mode m st) st ms =
   foldl (\<lambda>st m. applyStep mode m st) st (filter isActive ms)"
  by (induction ms arbitrary: st) (simp_all add: applyStep_inert)

lemma performLocalTransformation_active:
  "performLocalTransformation src mode ms = performLocalTransformation src mode (filter isActive ms)"
  unfolding performLocalTransformation_steps
  by (simp add: foldl_applyStep_filter [of mode _ "sortedMappings mode ms"] filter_sortedMappings)

lemma modeString_SIL: "(modeString mode = ''SIL'') = (mode = SIL)"
  by (cases mode) (simp_all add: modeString_def)

lemma compareMappingsCLI_eq: "compareMappingsCLI (modeString mode) = compareMappings mode"
  by (intro ext) (simp add: compareMappingsCLI_def compareMappings_def modeString_SIL orElse_def)

lemma applyMappingCLI_eq: "applyMappingCLI (modeString mode) = applyMapping mode"
  by (intro ext)
    (simp add: applyMappingCLI_def applyMapping_def modeString_SIL sourceOf_def targetOf_def)

lemma unescaped_dot_is_wildcard:
  "newRegExp ''a.c'' = Inr [Lit CHR ''a'', AnyChar, Lit CHR ''c'']
   \<and> js_match ''abc'' [Lit CHR ''a'', AnyChar, Lit CHR ''c''] = Some [''abc'']
   \<and> js_match ''abc'' [Lit CHR ''a'', Lit CHR ''.'', Lit CHR ''c''] = None"
  by (simp add: js_match_def syntaxChars_def char_defs)

section \<open>Round trip on token lists\<close>







lemma sourceOf_swap [simp]: "sourceOf (swapMode mode) m = targetOf mode m"
  by (simp add: sourceOf_def targetOf_def swapMode_def)

lemma targetOf_swap [simp]: "targetOf (swapMode mode) m = sourceOf mode m"
  by (cases mode) (simp_all add: sourceOf_def targetOf_def swapMode_def)


lemma set_sortedMappings [simp]: "set (sortedMappings mode ms) = set ms"
  using mset_sortedMappings [of mode ms] by (metis set_mset_mset)









section \<open>The claims\<close>

text \<open>
  Claim C1. The engine applies the rules in the order of \<open>sortedMappings\<close>: the same rules
  as the input (as a multiset), in descending order of the length of the pattern field of
  the active mode, and rules whose patterns have the same length keep the order of the
  input. With the rules \<open>$Speed\<close> to \<open>A\<close> and \<open>$SpeedFront\<close> to \<open>B\<close> the text
  \<open>$SpeedFront\<close> becomes \<open>B\<close> with one change.
\<close>

theorem C1_longest_pattern_first:
  "performLocalTransformation src mode ms =
     (case forEach (applyMapping mode) (sortedMappings mode ms) (src, 0) of
        Inl e \<Rightarrow> Inl e
      | Inr st \<Rightarrow> Inr \<lparr>code = fst st, changes = snd st\<rparr>)
   \<and> mset (sortedMappings mode ms) = mset ms
   \<and> sorted_wrt (\<lambda>a b. length (sourceOf mode b) \<le> length (sourceOf mode a))
        (sortedMappings mode ms)
   \<and> (\<forall>k. filter (\<lambda>m. length (sourceOf mode m) = k) (sortedMappings mode ms) =
            filter (\<lambda>m. length (sourceOf mode m) = k) ms)
   \<and> performLocalTransformation ''$SpeedFront'' SIL
        [mkRule ''1'' ''$Speed'' ''A'', mkRule ''2'' ''$SpeedFront'' ''B'']
       = Inr \<lparr>code = ''B'', changes = 1\<rparr>
   \<and> performLocalTransformation ''$SpeedFront'' SIL
        [mkRule ''2'' ''$SpeedFront'' ''B'', mkRule ''1'' ''$Speed'' ''A'']
       = Inr \<lparr>code = ''B'', changes = 1\<rparr>"
proof -
  have "performLocalTransformation ''$SpeedFront'' SIL
        [mkRule ''1'' ''$Speed'' ''A'', mkRule ''2'' ''$SpeedFront'' ''B'']
       = Inr \<lparr>code = ''B'', changes = 1\<rparr>"
    by code_simp
  moreover have "performLocalTransformation ''$SpeedFront'' SIL
        [mkRule ''2'' ''$SpeedFront'' ''B'', mkRule ''1'' ''$Speed'' ''A'']
       = Inr \<lparr>code = ''B'', changes = 1\<rparr>"
    by code_simp
  ultimately show ?thesis
    using mset_sortedMappings sorted_sortedMappings stable_sortedMappings
    by (simp add: performLocalTransformation_def)
qed

text \<open>The two rules of the example are put in the other order before they are applied.\<close>

theorem C1_witness:
  "sortedMappings SIL [mkRule ''1'' ''$Speed'' ''A'', mkRule ''2'' ''$SpeedFront'' ''B'']
     = [mkRule ''2'' ''$SpeedFront'' ''B'', mkRule ''1'' ''$Speed'' ''A'']
   \<and> sorted_wrt (\<lambda>a b. length (sourceOf SIL b) \<le> length (sourceOf SIL a))
        (sortedMappings SIL [mkRule ''1'' ''$Speed'' ''A'', mkRule ''2'' ''$SpeedFront'' ''B''])
   \<and> performLocalTransformation ''$SpeedFront'' SIL
        [mkRule ''1'' ''$Speed'' ''A'', mkRule ''2'' ''$SpeedFront'' ''B'']
       = Inr \<lparr>code = ''B'', changes = 1\<rparr>"
proof -
  have "sortedMappings SIL [mkRule ''1'' ''$Speed'' ''A'', mkRule ''2'' ''$SpeedFront'' ''B'']
     = [mkRule ''2'' ''$SpeedFront'' ''B'', mkRule ''1'' ''$Speed'' ''A'']"
    by code_simp
  then show ?thesis
    using C1_longest_pattern_first [of "''x''" SIL
        "[mkRule ''1'' ''$Speed'' ''A'', mkRule ''2'' ''$SpeedFront'' ''B'']"]
    by simp
qed

text \<open>
  Claim C2 says that the replacement field is inserted as raw literal text, also when it
  holds \<open>$&\<close> or \<open>$$\<close>. The engine hands the field to \<open>replace\<close> as a replacement
  template: with the rule \<open>x\<close> to \<open>a$&b\<close> the text \<open>x\<close> becomes \<open>axb\<close>, not
  \<open>a$&b\<close>, and with the rule \<open>x\<close> to \<open>$$Speed\<close> it becomes \<open>$Speed\<close>.
\<close>

theorem C2_replacement_is_expanded:
  "performLocalTransformation ''x'' SIL [mkRule ''1'' ''x'' ''a$&b'']
     = Inr \<lparr>code = ''axb'', changes = 1\<rparr>
   \<and> performLocalTransformation ''x'' SIL [mkRule ''1'' ''x'' ''$$Speed'']
     = Inr \<lparr>code = ''$Speed'', changes = 1\<rparr>"
  by code_simp




text \<open>
  Claim C4 says that an array whose elements are not rule-shaped is rejected. Both
  handlers accept the array \<open>[1]\<close>: the store holds the number afterwards and no error is
  signalled.
\<close>

theorem C4_counterexample:
  "handleMappingFileUpload (Some (JArr [JNum 1])) ''rules.json''
       \<lparr>mappings = [], terminalLogs = []\<rparr>
     = \<lparr>mappings = [JNum 1], terminalLogs = [LoadedMappings 1 ''rules.json'']\<rparr>
   \<and> handleFileUpload (Some (JArr [JNum 1])) \<lparr>editorMappings = [], alerts = []\<rparr>
     = \<lparr>editorMappings = [JNum 1], alerts = []\<rparr>
   \<and> \<not> ruleShaped (JNum 1)"
  by (simp add: handleMappingFileUpload_def handleFileUpload_def)

text \<open>
  Claim C4, amended. The import accepts a payload when it parses and its root is an
  array, whatever the elements are, and the store then holds the array. When the payload
  does not parse or its root is not an array, the store is left unchanged and an error is
  signalled (a log entry in App.tsx, an alert in the mapping editor).
\<close>

theorem C4_import_checks_root_only:
  "handleMappingFileUpload (Some (JArr js)) name st
     = st\<lparr>mappings := js, terminalLogs := terminalLogs st @ [LoadedMappings (length js) name]\<rparr>
   \<and> handleFileUpload (Some (JArr js)) est = est\<lparr>editorMappings := js\<rparr>
   \<and> ((\<forall>js. parsed \<noteq> Some (JArr js)) \<longrightarrow>
        mappings (handleMappingFileUpload parsed name st) = mappings st
        \<and> terminalLogs (handleMappingFileUpload parsed name st)
            = terminalLogs st @ [if parsed = None then FailedToParseJson else InvalidJsonFormat]
        \<and> editorMappings (handleFileUpload parsed est) = editorMappings est
        \<and> alerts (handleFileUpload parsed est)
            = alerts est @ [if parsed = None then AlertFailedToParseJson
                            else AlertInvalidJsonFormat])"
  by (auto simp: handleMappingFileUpload_def handleFileUpload_def
      split: option.splits json.splits)

text \<open>An object at the root and a file that does not parse.\<close>

theorem C4_witness:
  "mappings (handleMappingFileUpload (Some (JObj [])) ''rules.json''
       \<lparr>mappings = [JNull], terminalLogs = []\<rparr>) = [JNull]
   \<and> terminalLogs (handleMappingFileUpload (Some (JObj [])) ''rules.json''
       \<lparr>mappings = [JNull], terminalLogs = []\<rparr>) = [InvalidJsonFormat]
   \<and> alerts (handleFileUpload None \<lparr>editorMappings = [JNull], alerts = []\<rparr>)
       = [AlertFailedToParseJson]"
proof -
  have h1: "\<forall>js. Some (JObj []) \<noteq> Some (JArr js)" by simp
  have h2: "\<forall>js. (None :: json option) \<noteq> Some (JArr js)" by simp
  show ?thesis
    using C4_import_checks_root_only [of "[]" "''rules.json''"
        "\<lparr>mappings = [JNull], terminalLogs = []\<rparr>"
        "\<lparr>editorMappings = [JNull], alerts = []\<rparr>" "Some (JObj [])"] h1
      C4_import_checks_root_only [of "[]" "''rules.json''"
        "\<lparr>mappings = [JNull], terminalLogs = []\<rparr>"
        "\<lparr>editorMappings = [JNull], alerts = []\<rparr>" "None"] h2
    by simp
qed

text \<open>
  Claim C5. For every text, mode and list of rules the engine returns a result, never an
  error, and the number of changes is not negative. (The model functions are total, and
  the pattern built from an escaped field always compiles.)
\<close>

theorem C5_always_a_result:
  "\<exists>r. performLocalTransformation src mode ms = Inr r \<and> 0 \<le> changes r"
  using foldl_applyStep_count [of "(src, 0)" mode "sortedMappings mode ms"]
  by (simp add: performLocalTransformation_steps)

text \<open>The change-counting example of the specification.\<close>

theorem C5_witness:
  "\<exists>r. performLocalTransformation ''$A $A $A'' SIL [mkRule ''1'' ''$A'' ''X''] = Inr r
       \<and> 0 \<le> changes r"
  using C5_always_a_result [of "''$A $A $A''" SIL "[mkRule ''1'' ''$A'' ''X'']"] by simp

text \<open>
  Claim C6. \<open>performTransformation\<close> of the exported program returns the same result
  as \<open>performLocalTransformation\<close> for every text, mode and list of rules.
\<close>

theorem C6_exported_engine_equivalent:
  "performTransformation src (modeString mode) ms = performLocalTransformation src mode ms"
  by (simp add: performTransformation_def performLocalTransformation_def sortedMappings_def
      compareMappingsCLI_eq applyMappingCLI_eq)

text \<open>Both engines on the change-counting example.\<close>

theorem C6_witness:
  "performTransformation ''$A $A $A'' ''SIL'' [mkRule ''1'' ''$A'' ''X'']
     = performLocalTransformation ''$A $A $A'' SIL [mkRule ''1'' ''$A'' ''X'']"
  using C6_exported_engine_equivalent [of "''$A $A $A''" SIL "[mkRule ''1'' ''$A'' ''X'']"]
  by (simp add: modeString_def)

text \<open>
  Claim C7 says that one path with an option flag prints the usage text and exits with
  code 1. The program counts every argument: called with \<open>in.can --mode=SIL\<close> it takes
  the flag as the output path, transforms the file and exits with code 0.
\<close>

theorem C7_counterexample:
  "map_option exitCode
     (cli_main Map.empty upperCaseAscii [] [''in.can'' \<mapsto> ''x''] {}
        [''in.can'', ''--mode=SIL'']) = Some 0
   \<and> map_option console
     (cli_main Map.empty upperCaseAscii [] [''in.can'' \<mapsto> ''x''] {}
        [''in.can'', ''--mode=SIL''])
     = Some [UsingEmbeddedMappings, Reading ''in.can'', Applying 0 ''SIL'',
             SuccessWritten ''--mode=SIL'', ChangesMade 0]"
  by (simp add: cli_main_def cli_transform_def startsWith_def splitEquals1_def upperCaseAscii_def
      performTransformation_def js_sort_def Let_def)

text \<open>
  Claim C7, amended. When fewer than two arguments are given in all, option flags
  counted, the program prints the usage text and exits with code 1, and no file is
  written.
\<close>

theorem C7_usage_when_fewer_than_two_arguments:
  "length args < 2 \<Longrightarrow>
     cli_main JSON_parse toUpperCase embedded fs unwritable args
       = Some \<lparr>exitCode = 1, console = [UsageText], files = fs\<rparr>"
  by (simp add: cli_main_def)

text \<open>A single option flag.\<close>

theorem C7_witness:
  "cli_main Map.empty upperCaseAscii [] Map.empty {} [''--mode=SIL'']
     = Some \<lparr>exitCode = 1, console = [UsageText], files = Map.empty\<rparr>"
proof -
  have h: "length [''--mode=SIL''] < 2" by simp
  show ?thesis by (rule C7_usage_when_fewer_than_two_arguments [OF h])
qed

text \<open>
  Claim C8. A rule with two non-empty fields is applied to the occurrences of its pattern
  as literal text: the count grows by the number of literal occurrences, a text without
  a literal occurrence is left as it is, and for a replacement without special reference
  the new text is the literal replacement. The regular expression built from any
  pattern is the list of its characters as literals, whatever metacharacters it holds.
  The pattern \<open>EngineMsg.Torque\<close> does not match \<open>EngineMsgXTorque\<close>.
\<close>

theorem C8_pattern_is_literal:
  "(sourceOf mode m \<noteq> [] \<and> targetOf mode m \<noteq> [] \<longrightarrow>
      (\<exists>text'. applyMapping mode m (text, n)
                 = Inr (text', n + int (literalCount (sourceOf mode m) text))
         \<and> (\<not> sublist (sourceOf mode m) text \<longrightarrow>
               text' = text \<and> literalCount (sourceOf mode m) text = 0)
         \<and> (\<not> hasSpecialRef (targetOf mode m) \<longrightarrow>
               text' = replaceAll (sourceOf mode m) (targetOf mode m) text)))
   \<and> newRegExp (escapeRegExp (sourceOf mode m)) = Inr (map Lit (sourceOf mode m))
   \<and> performLocalTransformation ''EngineMsgXTorque'' SIL [mkRule ''1'' ''EngineMsg.Torque'' ''T'']
       = Inr \<lparr>code = ''EngineMsgXTorque'', changes = 0\<rparr>
   \<and> performLocalTransformation ''EngineMsg.Torque'' SIL [mkRule ''1'' ''EngineMsg.Torque'' ''T'']
       = Inr \<lparr>code = ''T'', changes = 1\<rparr>"
proof -
  have ex1: "performLocalTransformation ''EngineMsgXTorque'' SIL
      [mkRule ''1'' ''EngineMsg.Torque'' ''T''] = Inr \<lparr>code = ''EngineMsgXTorque'', changes = 0\<rparr>"
    by code_simp
  have ex2: "performLocalTransformation ''EngineMsg.Torque'' SIL
      [mkRule ''1'' ''EngineMsg.Torque'' ''T''] = Inr \<lparr>code = ''T'', changes = 1\<rparr>"
    by code_simp
  have gen: "\<exists>text'. applyMapping mode m (text, n)
                 = Inr (text', n + int (literalCount (sourceOf mode m) text))
         \<and> (\<not> sublist (sourceOf mode m) text \<longrightarrow>
               text' = text \<and> literalCount (sourceOf mode m) text = 0)
         \<and> (\<not> hasSpecialRef (targetOf mode m) \<longrightarrow>
               text' = replaceAll (sourceOf mode m) (targetOf mode m) text)"
    if p: "sourceOf mode m \<noteq> []" and q: "targetOf mode m \<noteq> []"
    using p q
    by (simp add: applyMapping_step applyStep_def replaceFrom_none literalCount_0
        replaceFrom_Lit)
  show ?thesis using ex1 ex2 gen newRegExp_escapeRegExp by blast
qed

text \<open>The pattern \<open>a.c\<close> on a text that holds \<open>abc\<close> and \<open>a.c\<close>.\<close>

theorem C8_witness:
  "applyMapping SIL (mkRule ''1'' ''a.c'' ''T'') (''abc a.c'', 0) = Inr (''abc T'', 1)"
proof -
  have s: "sourceOf SIL (mkRule ''1'' ''a.c'' ''T'') = ''a.c''"
    and t: "targetOf SIL (mkRule ''1'' ''a.c'' ''T'') = ''T''"
    by (simp_all add: sourceOf_def targetOf_def mkRule_def)
  have h: "\<not> hasSpecialRef ''T''" by simp
  have r: "replaceAll ''a.c'' ''T'' ''abc a.c'' = ''abc T''" by code_simp
  have c: "literalCount ''a.c'' ''abc a.c'' = 1" by code_simp
  show ?thesis
    using C8_pattern_is_literal [of SIL "mkRule ''1'' ''a.c'' ''T''" "''abc a.c''" 0]
    by (simp add: s t r c)
qed

text \<open>
  Claim C9. A rule with an empty \<open>realSignal\<close> or an empty \<open>simSignal\<close> leaves the text
  and the count as they are, in both modes, and the result of a transformation is the
  same with and without it, wherever it stands among the other rules.
\<close>

theorem C9_empty_rule_inert:
  "realSignal r = [] \<or> simSignal r = [] \<Longrightarrow>
     applyMapping mode r st = Inr st
     \<and> performLocalTransformation src mode (xs @ r # ys)
         = performLocalTransformation src mode (xs @ ys)"
proof -
  assume "realSignal r = [] \<or> simSignal r = []"
  then have i: "\<not> isActive r" by (auto simp: isActive_def)
  have "performLocalTransformation src mode (xs @ r # ys)
         = performLocalTransformation src mode (filter isActive (xs @ r # ys))"
    by (rule performLocalTransformation_active)
  also have "\<dots> = performLocalTransformation src mode (filter isActive (xs @ ys))"
    using i by simp
  also have "\<dots> = performLocalTransformation src mode (xs @ ys)"
    by (rule performLocalTransformation_active [symmetric])
  finally show ?thesis using i by (simp add: applyMapping_step applyStep_inert)
qed

text \<open>The rule with an empty \<open>realSignal\<close> and \<open>simSignal = X\<close>, in HIL mode.\<close>

theorem C9_witness:
  "performLocalTransformation ''aXb'' HIL [mkRule ''1'' ''a'' ''b'', mkRule ''2'' [] ''X'']
     = performLocalTransformation ''aXb'' HIL [mkRule ''1'' ''a'' ''b'']
   \<and> applyMapping HIL (mkRule ''2'' [] ''X'') (''aXb'', 0) = Inr (''aXb'', 0)"
proof -
  have h: "realSignal (mkRule ''2'' [] ''X'') = [] \<or> simSignal (mkRule ''2'' [] ''X'') = []"
    by (simp add: mkRule_def)
  show ?thesis
    using C9_empty_rule_inert [OF h, of HIL "(''aXb'', 0)" "''aXb''" "[mkRule ''1'' ''a'' ''b'']" "[]"]
    by simp
qed

text \<open>
  Claim C10. When the engine reports zero changes, the returned text is the source text.
\<close>

theorem C10_no_change_when_zero:
  "performLocalTransformation src mode ms = Inr r \<Longrightarrow> changes r = 0 \<Longrightarrow> code r = src"
  using foldl_applyStep_count [of "(src, 0)" mode "sortedMappings mode ms"]
  by (auto simp: performLocalTransformation_steps)

text \<open>A rule whose pattern does not occur.\<close>

theorem C10_witness:
  "performLocalTransformation ''abc'' SIL [mkRule ''1'' ''x'' ''y'']
     = Inr \<lparr>code = ''abc'', changes = 0\<rparr>
   \<and> code \<lparr>code = ''abc'', changes = 0\<rparr> = ''abc''"
proof -
  have h: "performLocalTransformation ''abc'' SIL [mkRule ''1'' ''x'' ''y'']
     = Inr \<lparr>code = ''abc'', changes = 0\<rparr>"
    by code_simp
  have z: "changes \<lparr>code = ''abc'', changes = 0\<rparr> = 0" by simp
  show ?thesis using h C10_no_change_when_zero [OF h z] by simp
qed

end
